theory Spec2Isabelle
  imports Main
begin

section \<open>JavaScript values used by the two pages\<close>

text \<open>
  The repository holds two React pages, the transfer page
  (\<^verbatim>\<open>wagmi-front/app/providers.tsx\<close>, \<^verbatim>\<open>TransferPage\<close>) and the permit-deposit page
  (\<^verbatim>\<open>PermitTokenPage\<close>). Strings are lists of code units, a \<^verbatim>\<open>bigint\<close> is an \<open>int\<close>,
  and a \<^verbatim>\<open>number\<close> that holds a chain id, a decimal count or a time stamp is an \<open>int\<close> too.
  A value that may be \<^verbatim>\<open>undefined\<close> is an \<open>option\<close>.
\<close>

type_synonym Address = string
type_synonym Hex = string

definition PERMIT_TOKEN_ADDRESS :: Address where
  "PERMIT_TOKEN_ADDRESS = ''0x042eB0c69FC25678B0d399984c17959875f7018c''"

definition BANK_CONTRACT_ADDRESS :: Address where
  "BANK_CONTRACT_ADDRESS = ''0xA09A259Bd1516E1848337A592f19Ba08870f8FD2''"

definition EXPECTED_CHAIN_ID :: "int option" where
  "EXPECTED_CHAIN_ID = Some 11155111"

text \<open>Truthiness of the values the pages test with \<^verbatim>\<open>!!x\<close>, \<^verbatim>\<open>!x\<close> and \<^verbatim>\<open>x && ...\<close>.\<close>

definition truthy_string :: "string \<Rightarrow> bool" where
  "truthy_string t = (t \<noteq> [])"

definition truthy_string_opt :: "string option \<Rightarrow> bool" where
  "truthy_string_opt t = (case t of None \<Rightarrow> False | Some u \<Rightarrow> truthy_string u)"

definition truthy_number :: "int \<Rightarrow> bool" where
  "truthy_number n = (n \<noteq> 0)"

definition truthy_bigint_opt :: "int option \<Rightarrow> bool" where
  "truthy_bigint_opt a = (case a of None \<Rightarrow> False | Some n \<Rightarrow> n \<noteq> 0)"

text \<open>
  The two place-holder glyphs of the pages, an em dash and a horizontal ellipsis, written
  as their UTF-8 bytes.
\<close>

definition em_dash :: string where
  "em_dash = [CHR 0xE2, CHR 0x80, CHR 0x94]"


section \<open>Helpers of the pages\<close>

subsection \<open>explorerBaseFromChainId\<close>

text \<open>
  Both pages carry the same function, character for character: a \<^verbatim>\<open>switch\<close> on the
  optional chain id whose \<^verbatim>\<open>default\<close> returns \<^verbatim>\<open>undefined\<close>.
\<close>

definition explorerBaseFromChainId :: "int option \<Rightarrow> string option" where
  "explorerBaseFromChainId cid =
     (if cid = Some 1 then Some ''https://etherscan.io''
      else if cid = Some 11155111 then Some ''https://sepolia.etherscan.io''
      else if cid = Some 10 then Some ''https://optimistic.etherscan.io''
      else if cid = Some 8453 then Some ''https://basescan.org''
      else if cid = Some 42161 then Some ''https://arbiscan.io''
      else if cid = Some 137 then Some ''https://polygonscan.com''
      else None)"

text \<open>
  The explorer link of a page: rendered under \<^verbatim>\<open>isConfirmed && hash && explorerBase\<close>
  (the transfer page nests the last test inside the first two), with the target
  \<^verbatim>\<open>`${explorerBase}/tx/${hash}`\<close>. \<open>None\<close> is "no link rendered".
\<close>

definition explorerLink :: "bool \<Rightarrow> Hex option \<Rightarrow> string option \<Rightarrow> string option" where
  "explorerLink isConfirmed hash explorerBase =
     (case (hash, explorerBase) of
        (Some h, Some base) \<Rightarrow>
          if isConfirmed \<and> truthy_string h \<and> truthy_string base
          then Some (base @ ''/tx/'' @ h) else None
      | _ \<Rightarrow> None)"

subsection \<open>splitSig\<close>

text \<open>
  \<^verbatim>\<open>String.prototype.slice\<close> with non-negative bounds, and with one bound.
\<close>

definition slice :: "string \<Rightarrow> nat \<Rightarrow> nat \<Rightarrow> string" where
  "slice t a b = take (b - a) (drop a t)"

definition slice_from :: "string \<Rightarrow> nat \<Rightarrow> string" where
  "slice_from t a = drop a t"

definition hexDigit :: "char \<Rightarrow> nat option" where
  "hexDigit = map_of
     [(CHR ''0'', 0), (CHR ''1'', 1), (CHR ''2'', 2), (CHR ''3'', 3), (CHR ''4'', 4),
      (CHR ''5'', 5), (CHR ''6'', 6), (CHR ''7'', 7), (CHR ''8'', 8), (CHR ''9'', 9),
      (CHR ''a'', 10), (CHR ''b'', 11), (CHR ''c'', 12), (CHR ''d'', 13), (CHR ''e'', 14),
      (CHR ''f'', 15),
      (CHR ''A'', 10), (CHR ''B'', 11), (CHR ''C'', 12), (CHR ''D'', 13), (CHR ''E'', 14),
      (CHR ''F'', 15)]"

fun hexValue :: "nat \<Rightarrow> string \<Rightarrow> nat option" where
  "hexValue acc [] = Some acc"
| "hexValue acc (c # cs) =
     (case hexDigit c of None \<Rightarrow> None | Some d \<Rightarrow> hexValue (16 * acc + d) cs)"

text \<open>
  White space that \<^verbatim>\<open>Number\<close> strips from the ends of a string, as far as one code unit
  below 256 can hold it: TAB, LF, VT, FF, CR, SP and NBSP.
\<close>

definition isWhiteSpace :: "char \<Rightarrow> bool" where
  "isWhiteSpace c = (c \<in> {CHR 0x09, CHR 0x0A, CHR 0x0B, CHR 0x0C, CHR 0x0D, CHR 0x20, CHR 0xA0})"

text \<open>
  \<^verbatim>\<open>Number('0x' + ds)\<close>: the string starts with \<^verbatim>\<open>0x\<close>, so after the white space at its end
  is dropped it is a number exactly when at least one hexadecimal digit, and nothing
  else, follows the prefix. \<open>None\<close> is \<^verbatim>\<open>NaN\<close>.
\<close>

definition Number_0x :: "string \<Rightarrow> nat option" where
  "Number_0x ds =
     (let core = rev (dropWhile isWhiteSpace (rev ds))
      in if core = [] then None else hexValue 0 core)"

text \<open>
  \<^verbatim>\<open>splitSig\<close> returns the object \<^verbatim>\<open>{ v, r, s }\<close>, here the triple \<open>(v, r, s)\<close>.
\<close>

definition splitSig :: "Hex \<Rightarrow> nat option \<times> Hex \<times> Hex" where
  "splitSig signature =
     (let sig = slice_from signature 2;
          r = ''0x'' @ slice sig 0 64;
          s = ''0x'' @ slice sig 64 128;
          v = Number_0x (slice sig 128 130);
          v = (if v = Some 0 \<or> v = Some 1 then map_option (\<lambda>n. n + 27) v else v)
      in (v, r, s))"

section \<open>Derived values of the pages\<close>

subsection \<open>The decimal count\<close>

text \<open>
  What the \<^verbatim>\<open>decimals\<close> read of the token hands to a page: \<^verbatim>\<open>undefined\<close> until it has
  returned, otherwise the decoded value, a \<^verbatim>\<open>number\<close> for the \<^verbatim>\<open>uint8\<close> of an ERC-20, or a
  \<^verbatim>\<open>bigint\<close> for a wider type. Both pages compute
  \<^verbatim>\<open>typeof d === 'number' ? d : Number(d ?? 18)\<close>; \<^verbatim>\<open>Number\<close> of a \<^verbatim>\<open>bigint\<close> is exact
  below \<open>2 ^ 53\<close>, far above any decimal count.
\<close>

datatype read_data = Undefined | Null | NumberVal int | BigIntVal int

definition decimals :: "read_data \<Rightarrow> int" where
  "decimals tokenDecimals =
     (case tokenDecimals of
        NumberVal n \<Rightarrow> n
      | Undefined \<Rightarrow> 18
      | Null \<Rightarrow> 18
      | BigIntVal b \<Rightarrow> b)"

subsection \<open>Amounts\<close>

text \<open>
  \<^verbatim>\<open>parseUnits\<close> and \<^verbatim>\<open>formatUnits\<close> belong to the viem library, not to the repository:
  they are parameters, \<open>None\<close> standing for a throw. The pages catch the throw of
  \<^verbatim>\<open>parseUnits\<close> and turn it into \<^verbatim>\<open>undefined\<close>.
\<close>

type_synonym parse_units = "string \<Rightarrow> int \<Rightarrow> int option"
type_synonym format_units = "int \<Rightarrow> int \<Rightarrow> string option"

definition amountAsBigInt :: "parse_units \<Rightarrow> string \<Rightarrow> int \<Rightarrow> int option" where
  "amountAsBigInt parseUnits rawAmount dec =
     (if \<not> truthy_string rawAmount then None else parseUnits rawAmount dec)"

definition depositAmountBigInt :: "parse_units \<Rightarrow> string \<Rightarrow> int \<Rightarrow> int option" where
  "depositAmountBigInt parseUnits depositAmount dec =
     (if \<not> truthy_string depositAmount then None else parseUnits depositAmount dec)"

definition amountError :: "string \<Rightarrow> int option \<Rightarrow> int option \<Rightarrow> string" where
  "amountError rawAmount amount tokenBalance =
     (if \<not> truthy_string rawAmount then []
      else case amount of
        None \<Rightarrow> ''Invalid amount format''
      | Some a \<Rightarrow>
          if a \<le> 0 then ''Amount must be greater than 0''
          else if (case tokenBalance of None \<Rightarrow> False | Some b \<Rightarrow> a > b)
          then ''Insufficient balance''
          else [])"

text \<open>
  The balance object of \<^verbatim>\<open>useBalance\<close> on the permit page; the page reads its fields
  \<^verbatim>\<open>formatted\<close>, \<^verbatim>\<open>symbol\<close> and \<^verbatim>\<open>value\<close>.
\<close>

record balance_data =
  formatted :: string
  symbol :: string
  balance_value :: int

definition depositAmountError :: "string \<Rightarrow> int option \<Rightarrow> balance_data option \<Rightarrow> string" where
  "depositAmountError depositAmount amount tokenBalanceData =
     (if \<not> truthy_string depositAmount then []
      else case amount of
        None \<Rightarrow> ''Invalid amount format''
      | Some a \<Rightarrow>
          if a \<le> 0 then ''Amount must be greater than 0''
          else if (case tokenBalanceData of None \<Rightarrow> False | Some b \<Rightarrow> a > balance_value b)
          then ''Insufficient balance''
          else [])"

subsection \<open>Displayed balances\<close>

definition trim :: "string \<Rightarrow> string" where
  "trim t = rev (dropWhile isWhiteSpace (rev (dropWhile isWhiteSpace t)))"

text \<open>
  The transfer page's balance line; \<open>toString\<close> is \<^verbatim>\<open>tokenBalance.toString()\<close>, used when
  \<^verbatim>\<open>formatUnits\<close> throws.
\<close>

definition formattedBalance ::
  "format_units \<Rightarrow> (int \<Rightarrow> string) \<Rightarrow> int option \<Rightarrow> int \<Rightarrow> string" where
  "formattedBalance formatUnits toString tokenBalance dec =
     (case tokenBalance of
        None \<Rightarrow> em_dash
      | Some b \<Rightarrow> (case formatUnits b dec of Some t \<Rightarrow> t | None \<Rightarrow> toString b))"

text \<open>The permit page's two balance lines.\<close>

definition formattedTokenBalance :: "balance_data option \<Rightarrow> string" where
  "formattedTokenBalance tokenBalanceData =
     (case tokenBalanceData of
        Some b \<Rightarrow> formatted b @ '' '' @ symbol b
      | None \<Rightarrow> em_dash)"

definition formattedBankDeposit ::
  "format_units \<Rightarrow> (int \<Rightarrow> string) \<Rightarrow> int option \<Rightarrow> int \<Rightarrow> string option \<Rightarrow> string" where
  "formattedBankDeposit formatUnits toString bankDepositRaw dec tokenSymbol =
     (case bankDepositRaw of
        None \<Rightarrow> em_dash
      | Some b \<Rightarrow>
          (case formatUnits b dec of
             Some t \<Rightarrow> trim (t @ '' '' @ (case tokenSymbol of Some y \<Rightarrow> y | None \<Rightarrow> []))
           | None \<Rightarrow> toString b))"

subsection \<open>Addresses\<close>

text \<open>
  \<^verbatim>\<open>isAddress\<close> is viem's: the string must match \<^verbatim>\<open>/^0x[a-fA-F0-9]{40}$/\<close>; an all
  lower-case match is an address; any other match must equal its EIP-55 checksum
  form. The checksum needs Keccak-256 and is the parameter \<open>checksumOk\<close>
  (\<^verbatim>\<open>checksumAddress(address) === address\<close>).
\<close>

definition addressRegex :: "string \<Rightarrow> bool" where
  "addressRegex t =
     (take 2 t = ''0x'' \<and> length t = 42 \<and> list_all (\<lambda>c. hexDigit c \<noteq> None) (drop 2 t))"

text \<open>
  \<^verbatim>\<open>toLowerCase\<close> on the letters A to Z; \<^verbatim>\<open>isAddress\<close> applies it to a string that has
  matched the pattern, which holds no other upper-case letter.
\<close>

definition toLowerChar :: "char \<Rightarrow> char" where
  "toLowerChar c =
     (case map_of
        [(CHR ''A'', CHR ''a''), (CHR ''B'', CHR ''b''), (CHR ''C'', CHR ''c''),
         (CHR ''D'', CHR ''d''), (CHR ''E'', CHR ''e''), (CHR ''F'', CHR ''f''),
         (CHR ''G'', CHR ''g''), (CHR ''H'', CHR ''h''), (CHR ''I'', CHR ''i''),
         (CHR ''J'', CHR ''j''), (CHR ''K'', CHR ''k''), (CHR ''L'', CHR ''l''),
         (CHR ''M'', CHR ''m''), (CHR ''N'', CHR ''n''), (CHR ''O'', CHR ''o''),
         (CHR ''P'', CHR ''p''), (CHR ''Q'', CHR ''q''), (CHR ''R'', CHR ''r''),
         (CHR ''S'', CHR ''s''), (CHR ''T'', CHR ''t''), (CHR ''U'', CHR ''u''),
         (CHR ''V'', CHR ''v''), (CHR ''W'', CHR ''w''), (CHR ''X'', CHR ''x''),
         (CHR ''Y'', CHR ''y''), (CHR ''Z'', CHR ''z'')] c of
        Some l \<Rightarrow> l
      | None \<Rightarrow> c)"

definition toLowerCase :: "string \<Rightarrow> string" where
  "toLowerCase = map toLowerChar"

definition isAddress :: "(string \<Rightarrow> bool) \<Rightarrow> string \<Rightarrow> bool" where
  "isAddress checksumOk t =
     (if \<not> addressRegex t then False
      else if toLowerCase t = t then True
      else checksumOk t)"

definition addressError :: "(string \<Rightarrow> bool) \<Rightarrow> string \<Rightarrow> string" where
  "addressError checksumOk toAddress =
     (if \<not> truthy_string toAddress then []
      else if isAddress checksumOk toAddress then [] else ''Invalid address'')"

subsection \<open>The guards of the submit buttons\<close>

text \<open>
  \<^verbatim>\<open>canSubmit\<close> of the transfer page; its button has \<^verbatim>\<open>disabled={!canSubmit}\<close>.
\<close>

definition canSubmit ::
  "Address option \<Rightarrow> int \<Rightarrow> int option \<Rightarrow> string \<Rightarrow> (string \<Rightarrow> bool) \<Rightarrow> string \<Rightarrow> bool \<Rightarrow> bool \<Rightarrow> bool"
  where
  "canSubmit addr cid amount amountErr checksumOk toAddress isWritePending isConfirming =
     (truthy_string_opt addr \<and>
      truthy_number cid \<and>
      truthy_bigint_opt amount \<and>
      \<not> truthy_string amountErr \<and>
      isAddress checksumOk toAddress \<and>
      \<not> isWritePending \<and>
      \<not> isConfirming)"

text \<open>
  \<^verbatim>\<open>correctNetwork\<close>, \<^verbatim>\<open>baseGuard\<close> and \<^verbatim>\<open>canDeposit\<close> of the permit page; its button has
  \<^verbatim>\<open>disabled={!canDeposit}\<close>.
\<close>

definition correctNetwork :: "int \<Rightarrow> bool" where
  "correctNetwork cid =
     (case EXPECTED_CHAIN_ID of
        Some expected \<Rightarrow> if truthy_number expected then cid = expected else True
      | None \<Rightarrow> True)"

definition baseGuard :: "bool \<Rightarrow> bool \<Rightarrow> bool \<Rightarrow> bool \<Rightarrow> bool" where
  "baseGuard isConnected network isWritePending isConfirming =
     (isConnected \<and> network \<and> \<not> isWritePending \<and> \<not> isConfirming)"

definition canDeposit :: "bool \<Rightarrow> int option \<Rightarrow> string \<Rightarrow> bool" where
  "canDeposit guard amount amountErr =
     (guard \<and> truthy_bigint_opt amount \<and> \<not> truthy_string amountErr)"

section \<open>The submit actions\<close>

subsection \<open>Thrown values, requests and observable steps\<close>

text \<open>
  A value caught by a \<^verbatim>\<open>catch\<close>: an instance of viem's \<^verbatim>\<open>BaseError\<close> with its
  \<^verbatim>\<open>shortMessage\<close> and \<^verbatim>\<open>message\<close>, or anything else, with the properties the handlers
  read (\<^verbatim>\<open>shortMessage\<close>, \<^verbatim>\<open>message\<close>, either may be missing) and its \<^verbatim>\<open>String(e)\<close>.
\<close>

datatype thrown =
  BaseError (shortMessage: "string option") (baseMessage: string)
| NonBase (shortMessageOf: "string option") (messageOf: "string option") (asString: string)

text \<open>The EIP-712 typed data that \<^verbatim>\<open>signPermit\<close> builds.\<close>

record eip712_domain =
  name :: string
  version :: string
  chainId :: int
  verifyingContract :: Address

record permit_message =
  owner :: "Address option"
  spender :: Address
  permit_value :: int
  nonce :: int
  deadline :: int

record typed_data =
  domain :: eip712_domain
  types :: "(string \<times> (string \<times> string) list) list"
  primaryType :: string
  message :: permit_message

text \<open>
  The argument of \<^verbatim>\<open>signTypedDataAsync\<close> adds \<^verbatim>\<open>account\<close>; the argument of
  \<^verbatim>\<open>verifyTypedData\<close> adds \<^verbatim>\<open>address\<close> (the expected signer) and \<^verbatim>\<open>signature\<close>.
\<close>

record sign_request = typed_data +
  account :: "Address option"

record verify_request = typed_data +
  address :: "Address option"
  signature :: Hex

datatype abi_name = permitTokenAbi | bankAbi

datatype abi_arg = ArgBigInt int | ArgNumber "nat option" | ArgString string

record contract_call =
  call_address :: Address
  abi :: abi_name
  functionName :: string
  args :: "abi_arg list"
  call_account :: "Address option"

text \<open>
  What a handler does to the outside, in the order it does it: calls to the wallet, to
  the RPC client and to viem, state updates, and what it shows.
\<close>

datatype event =
  RefetchNonces
| GetChainId
| SignTypedData sign_request
| VerifyTypedData verify_request
| SimulateContract contract_call
| WriteContract contract_call
| SetHash Hex
| SetStatus string
| ConsoleError thrown
| Alert string

text \<open>
  What the closures of the permit page capture: hook results and the asynchronous
  functions, each of which returns a value or throws (\<open>Inl\<close>). \<open>dateNow\<close> is \<^verbatim>\<open>Date.now()\<close>.
\<close>

record permit_env =
  connectedAddress :: "Address option"
  tokenName :: "string option"
  nonces :: "int option"
  refetchNonces :: "thrown + int option"
  dateNow :: int
  getChainId :: "thrown + int"
  signTypedDataAsync :: "sign_request \<Rightarrow> thrown + Hex"
  verifyTypedData :: "verify_request \<Rightarrow> thrown + bool"
  simulateContract :: "contract_call \<Rightarrow> thrown + contract_call"
  writeContractAsync :: "contract_call \<Rightarrow> thrown + Hex"

subsection \<open>signPermit\<close>

definition permit_types :: "(string \<times> (string \<times> string) list) list" where
  "permit_types =
     [(''Permit'',
       [(''owner'', ''address''),
        (''spender'', ''address''),
        (''value'', ''uint256''),
        (''nonce'', ''uint256''),
        (''deadline'', ''uint256'')])]"

definition verification_failed :: thrown where
  "verification_failed =
     NonBase None
       (Some ''Local signature verification failed: signer != owner (ERC2612InvalidSigner)'')
       ''Error: Local signature verification failed: signer != owner (ERC2612InvalidSigner)''"

text \<open>The local constants \<^verbatim>\<open>nonce\<close>, \<^verbatim>\<open>deadline\<close>, \<^verbatim>\<open>domain\<close> and \<^verbatim>\<open>message\<close> of \<^verbatim>\<open>signPermit\<close>.\<close>

definition permit_nonce :: "permit_env \<Rightarrow> int option \<Rightarrow> int" where
  "permit_nonce env latest =
     (case latest of
        Some n \<Rightarrow> n
      | None \<Rightarrow> (case nonces env of Some n \<Rightarrow> n | None \<Rightarrow> 0))"

definition permit_deadline :: "permit_env \<Rightarrow> int" where
  "permit_deadline env = (let nowSec = dateNow env div 1000 in nowSec + 60 * 20)"

definition permit_domain :: "permit_env \<Rightarrow> int \<Rightarrow> eip712_domain" where
  "permit_domain env currentChainId =
     \<lparr>name = (if truthy_string_opt (tokenName env)
               then (case tokenName env of Some t \<Rightarrow> t | None \<Rightarrow> ''PermitToken'')
               else ''PermitToken''),
      version = ''1'',
      chainId = currentChainId,
      verifyingContract = PERMIT_TOKEN_ADDRESS\<rparr>"

definition permit_message :: "permit_env \<Rightarrow> int \<Rightarrow> int option \<Rightarrow> permit_message" where
  "permit_message env val latest =
     \<lparr>owner = connectedAddress env,
      spender = BANK_CONTRACT_ADDRESS,
      permit_value = val,
      nonce = permit_nonce env latest,
      deadline = permit_deadline env\<rparr>"

text \<open>
  The object literals handed to \<^verbatim>\<open>signTypedDataAsync\<close> and to \<^verbatim>\<open>verifyTypedData\<close>.
\<close>

definition permit_sign_request :: "permit_env \<Rightarrow> int \<Rightarrow> int option \<Rightarrow> int \<Rightarrow> sign_request" where
  "permit_sign_request env val latest currentChainId =
     \<lparr>domain = permit_domain env currentChainId,
      types = permit_types,
      primaryType = ''Permit'',
      message = permit_message env val latest,
      account = connectedAddress env\<rparr>"

definition permit_verify_request ::
  "permit_env \<Rightarrow> int \<Rightarrow> int option \<Rightarrow> int \<Rightarrow> Hex \<Rightarrow> verify_request" where
  "permit_verify_request env val latest currentChainId sg =
     \<lparr>domain = permit_domain env currentChainId,
      types = permit_types,
      primaryType = ''Permit'',
      message = permit_message env val latest,
      address = connectedAddress env,
      signature = sg\<rparr>"

text \<open>
  \<^verbatim>\<open>signPermit\<close>: the steps taken and either the thrown value or \<^verbatim>\<open>{ signature, deadline }\<close>.
\<close>

definition signPermit :: "permit_env \<Rightarrow> int \<Rightarrow> event list \<times> (thrown + Hex \<times> int)" where
  "signPermit env val =
     (case refetchNonces env of
        Inl e \<Rightarrow> ([RefetchNonces], Inl e)
      | Inr latest \<Rightarrow>
     (case getChainId env of
        Inl e \<Rightarrow> ([RefetchNonces, GetChainId], Inl e)
      | Inr currentChainId \<Rightarrow>
     (let sreq = permit_sign_request env val latest currentChainId
      in case signTypedDataAsync env sreq of
        Inl e \<Rightarrow> ([RefetchNonces, GetChainId, SignTypedData sreq], Inl e)
      | Inr sg \<Rightarrow>
     (let vreq = permit_verify_request env val latest currentChainId sg
      in case verifyTypedData env vreq of
        Inl e \<Rightarrow>
          ([RefetchNonces, GetChainId, SignTypedData sreq, VerifyTypedData vreq], Inl e)
      | Inr ok \<Rightarrow>
          if \<not> ok
          then ([RefetchNonces, GetChainId, SignTypedData sreq, VerifyTypedData vreq],
                Inl verification_failed)
          else ([RefetchNonces, GetChainId, SignTypedData sreq, VerifyTypedData vreq],
                Inr (sg, permit_deadline env))))))"

subsection \<open>handleDepositWithPermit\<close>

definition deposit_call :: "permit_env \<Rightarrow> int \<Rightarrow> int \<Rightarrow> Hex \<Rightarrow> contract_call" where
  "deposit_call env amount dl sg =
     (case splitSig sg of
        (v, r, s) \<Rightarrow>
          \<lparr>call_address = BANK_CONTRACT_ADDRESS,
           abi = bankAbi,
           functionName = ''depositWithPermit'',
           args = [ArgBigInt amount, ArgBigInt dl, ArgNumber v, ArgString r, ArgString s],
           call_account = connectedAddress env\<rparr>)"

text \<open>The body of the \<^verbatim>\<open>try\<close> block.\<close>

definition handleDepositWithPermit_try ::
  "permit_env \<Rightarrow> int \<Rightarrow> event list \<times> (thrown + unit)" where
  "handleDepositWithPermit_try env amount =
     (case signPermit env amount of
        (steps, Inl e) \<Rightarrow> (steps, Inl e)
      | (steps, Inr (sg, dl)) \<Rightarrow>
     (let call = deposit_call env amount dl sg
      in case simulateContract env call of
        Inl e \<Rightarrow> (steps @ [SimulateContract call], Inl e)
      | Inr request \<Rightarrow>
     (case writeContractAsync env request of
        Inl e \<Rightarrow> (steps @ [SimulateContract call, WriteContract request], Inl e)
      | Inr txHash \<Rightarrow>
          (steps @ [SimulateContract call, WriteContract request, SetHash txHash], Inr ()))))"

text \<open>The message of the \<^verbatim>\<open>catch\<close> block.\<close>

definition deposit_catch_msg :: "thrown \<Rightarrow> string" where
  "deposit_catch_msg e =
     (case e of
        BaseError short m \<Rightarrow> (case short of Some t \<Rightarrow> t | None \<Rightarrow> m)
      | NonBase short m str \<Rightarrow> (case m of Some t \<Rightarrow> t | None \<Rightarrow> str))"

text \<open>
  The handler: the early return, the \<^verbatim>\<open>try\<close> block, and the \<^verbatim>\<open>catch\<close> block, which logs and
  alerts. The result is \<open>Inl\<close> when a thrown value leaves the handler.
\<close>

definition handleDepositWithPermit ::
  "permit_env \<Rightarrow> bool \<Rightarrow> int option \<Rightarrow> event list \<times> (thrown + unit)" where
  "handleDepositWithPermit env canDep amount =
     (if \<not> canDep \<or> \<not> truthy_bigint_opt amount then ([], Inr ())
      else case amount of
        None \<Rightarrow> ([], Inr ())
      | Some a \<Rightarrow>
          (case handleDepositWithPermit_try env a of
             (steps, Inr u) \<Rightarrow> (steps, Inr ())
           | (steps, Inl e) \<Rightarrow>
               (steps @ [ConsoleError e, Alert (deposit_catch_msg e)], Inr ())))"

subsection \<open>handleTransfer\<close>




subsection \<open>Errors reported by the hooks\<close>





subsection \<open>Reading a run\<close>



subsection \<open>Example inputs\<close>

text \<open>
  Concrete inputs on which the properties below are run. The account is written in lower
  case, so that \<^verbatim>\<open>isAddress\<close> accepts it without a checksum. The parser and the formatter
  stand for \<^verbatim>\<open>parseUnits\<close> and \<^verbatim>\<open>formatUnits\<close> on the few inputs used, at 0 and at 18
  decimals.
\<close>

definition example_account :: Address where
  "example_account = ''0x70997970c51812dc3a010c7d01b50e0d17dc79c8''"

definition example_signature :: Hex where
  "example_signature = ''0x'' @ replicate 64 CHR ''a'' @ replicate 64 CHR ''b'' @ ''01''"

definition example_parseUnits :: parse_units where
  "example_parseUnits t d =
     (if d = 0 then map_of [(''0'', 0), (''-1'', - 1), (''2'', 2), (''5'', 5)] t
      else if d = 18 then map_of [(''2'', 2000000000000000000)] t
      else None)"

definition example_formatUnits :: format_units where
  "example_formatUnits b d =
     (if b = 1500000000000000000 \<and> d = 18 then Some ''1.5''
      else if b = 1500000 \<and> d = 6 then Some ''1.5''
      else None)"

text \<open>
  A wallet and a chain that accept everything: the wallet signs, the signature verifies
  for the connected account, the simulation returns the call as the request, and the
  broadcast returns a hash.
\<close>

definition example_env :: permit_env where
  "example_env =
     \<lparr>connectedAddress = Some example_account,
      tokenName = Some ''PermitToken'',
      nonces = Some 2,
      refetchNonces = Inr (Some 3),
      dateNow = 1700000000999,
      getChainId = Inr 11155111,
      signTypedDataAsync = (\<lambda>q. Inr example_signature),
      verifyTypedData = (\<lambda>q. Inr (address q = Some example_account)),
      simulateContract = (\<lambda>c. Inr c),
      writeContractAsync = (\<lambda>c. Inr ''0x1234'')\<rparr>"

text \<open>The same, with a wallet whose signature does not verify.\<close>

definition example_env_bad_signature :: permit_env where
  "example_env_bad_signature = example_env\<lparr>verifyTypedData := (\<lambda>q. Inr False)\<rparr>"

text \<open>The same, with a wallet that rejects the request to sign.\<close>

definition user_rejected :: thrown where
  "user_rejected = BaseError (Some ''User rejected the request.'') ''User rejected the request. Details: denied''"

definition example_env_rejected :: permit_env where
  "example_env_rejected = example_env\<lparr>signTypedDataAsync := (\<lambda>q. Inl user_rejected)\<rparr>"




section \<open>Properties\<close>

subsection \<open>Block-explorer links\<close>

text \<open>
  C8: the explorer base URL depends on the chain id alone. The chain ids 1, 11155111, 10,
  8453, 42161 and 137 have the URLs of the \<^verbatim>\<open>switch\<close>; any other chain id, and a missing one,
  has none, and then a page renders no explorer link, whatever the confirmation state and
  the hash.
\<close>

theorem explorer_base_by_chain_id:
  "explorerBaseFromChainId (Some 1) = Some ''https://etherscan.io'' \<and>
   explorerBaseFromChainId (Some 11155111) = Some ''https://sepolia.etherscan.io'' \<and>
   explorerBaseFromChainId (Some 10) = Some ''https://optimistic.etherscan.io'' \<and>
   explorerBaseFromChainId (Some 8453) = Some ''https://basescan.org'' \<and>
   explorerBaseFromChainId (Some 42161) = Some ''https://arbiscan.io'' \<and>
   explorerBaseFromChainId (Some 137) = Some ''https://polygonscan.com'' \<and>
   (cid \<notin> {Some 1, Some 11155111, Some 10, Some 8453, Some 42161, Some 137} \<longrightarrow>
      explorerBaseFromChainId cid = None \<and>
      explorerLink isConfirmed hash (explorerBaseFromChainId cid) = None)"
  by (simp add: explorerBaseFromChainId_def explorerLink_def split: option.splits)

text \<open>
  The chain id 31337 of the local development chain, which the application configures,
  has no explorer: a confirmed transaction on it gets no link.
\<close>

theorem explorer_base_by_chain_id_witness:
  "Some (31337::int) \<notin> {Some 1, Some 11155111, Some 10, Some 8453, Some 42161, Some 137} \<and>
   explorerBaseFromChainId (Some 31337) = None \<and>
   explorerLink True (Some ''0xabc'') (explorerBaseFromChainId (Some 31337)) = None \<and>
   explorerLink True (Some ''0xabc'') (explorerBaseFromChainId (Some 1))
     = Some ''https://etherscan.io/tx/0xabc''"
proof -
  have other: "Some (31337::int) \<notin> {Some 1, Some 11155111, Some 10, Some 8453, Some 42161, Some 137}"
    by simp
  have link: "explorerLink True (Some ''0xabc'') (Some ''https://etherscan.io'')
     = Some ''https://etherscan.io/tx/0xabc''"
    by (simp add: explorerLink_def truthy_string_def)
  have base: "explorerBaseFromChainId (Some 1) = Some ''https://etherscan.io''"
    by (simp add: explorerBaseFromChainId_def)
  from explorer_base_by_chain_id [of "Some 31337" True "Some ''0xabc''"] other
  have none: "explorerBaseFromChainId (Some 31337) = None"
    and no_link: "explorerLink True (Some ''0xabc'') (explorerBaseFromChainId (Some 31337)) = None"
    by blast+
  show ?thesis
    unfolding base using other none no_link link by blast
qed

subsection \<open>Splitting a signature\<close>

lemma hexDigit_not_white: "hexDigit c = Some d \<Longrightarrow> \<not> isWhiteSpace c"
  by (auto simp: hexDigit_def isWhiteSpace_def split: if_splits)

lemma drop_128_of_130: "length hs = 130 \<Longrightarrow> drop 128 hs = [hs ! 128, hs ! 129]"
proof -
  assume len: "length hs = 130"
  have "drop 128 hs = hs ! 128 # drop 129 hs"
    using len by (simp add: Cons_nth_drop_Suc [symmetric])
  moreover have "drop 129 hs = hs ! 129 # drop 130 hs"
    using len by (simp add: Cons_nth_drop_Suc [symmetric])
  ultimately show ?thesis using len by simp
qed

lemma Number_0x_two_digits:
  assumes "hexDigit c1 = Some d1" and "hexDigit c2 = Some d2"
  shows "Number_0x [c1, c2] = Some (16 * d1 + d2)"
  using assms hexDigit_not_white [OF assms(2)] by (simp add: Number_0x_def)

text \<open>
  C9: for a signature \<^verbatim>\<open>0x\<close> followed by 130 hexadecimal characters, \<^verbatim>\<open>splitSig\<close> returns as
  \<open>r\<close> the first 64 characters (32 bytes) and as \<open>s\<close> the next 64, each behind \<^verbatim>\<open>0x\<close>, and as
  \<open>v\<close> the value of the last byte, with 0 and 1 turned into 27 and 28; so \<open>v\<close> is never 0
  or 1.
\<close>

theorem splitSig_components:
  assumes "length hs = 130" and "\<forall>c\<in>set hs. hexDigit c \<noteq> None"
  shows "\<exists>d1 d2. hexDigit (hs ! 128) = Some d1 \<and> hexDigit (hs ! 129) = Some d2 \<and>
     splitSig (''0x'' @ hs) =
       (Some (if 16 * d1 + d2 = 0 then 27 else if 16 * d1 + d2 = 1 then 28 else 16 * d1 + d2),
        ''0x'' @ take 64 hs, ''0x'' @ take 64 (drop 64 hs)) \<and>
     fst (splitSig (''0x'' @ hs)) \<noteq> Some 0 \<and> fst (splitSig (''0x'' @ hs)) \<noteq> Some 1"
proof -
  have "hs ! 128 \<in> set hs" and "hs ! 129 \<in> set hs"
    using assms(1) by simp_all
  then obtain d1 d2 where
    d: "hexDigit (hs ! 128) = Some d1" "hexDigit (hs ! 129) = Some d2"
    using assms(2) by blast
  have n: "Number_0x (drop 128 hs) = Some (16 * d1 + d2)"
    using Number_0x_two_digits [OF d] drop_128_of_130 [OF assms(1)] by simp
  have t: "take 2 (drop 128 hs) = drop 128 hs"
    using assms(1) by simp
  have "splitSig (''0x'' @ hs) =
       (Some (if 16 * d1 + d2 = 0 then 27 else if 16 * d1 + d2 = 1 then 28 else 16 * d1 + d2),
        ''0x'' @ take 64 hs, ''0x'' @ take 64 (drop 64 hs))"
    using n t by (simp add: splitSig_def slice_def slice_from_def Let_def)
  then show ?thesis using d by auto
qed

text \<open>A signature whose last byte is \<^verbatim>\<open>01\<close>: \<open>v\<close> is 28.\<close>

theorem splitSig_components_witness:
  "length (replicate 64 CHR ''a'' @ replicate 64 CHR ''b'' @ ''01'') = 130 \<and>
   splitSig (''0x'' @ replicate 64 CHR ''a'' @ replicate 64 CHR ''b'' @ ''01'') =
     (Some 28, ''0x'' @ replicate 64 CHR ''a'', ''0x'' @ replicate 64 CHR ''b'')"
proof -
  let ?hs = "replicate 64 CHR ''a'' @ replicate 64 CHR ''b'' @ ''01''"
  have len: "length ?hs = 130" by simp
  have hex: "\<forall>c\<in>set ?hs. hexDigit c \<noteq> None" by (auto simp: hexDigit_def)
  have at: "?hs ! 128 = CHR ''0''" "?hs ! 129 = CHR ''1''" by (simp_all add: nth_append)
  from splitSig_components [OF len hex] obtain d1 d2 where
    d: "hexDigit (?hs ! 128) = Some d1" "hexDigit (?hs ! 129) = Some d2"
    and s: "splitSig (''0x'' @ ?hs) =
       (Some (if 16 * d1 + d2 = 0 then 27 else if 16 * d1 + d2 = 1 then 28 else 16 * d1 + d2),
        ''0x'' @ take 64 ?hs, ''0x'' @ take 64 (drop 64 ?hs))" by blast
  have "d1 = 0" and "d2 = 1" using d at by (simp_all add: hexDigit_def)
  then show ?thesis using s len by simp
qed

subsection \<open>The shapes of a run\<close>

lemma signPermit_cases:
  "signPermit env a = (tr, res) \<Longrightarrow>
   (\<exists>e. refetchNonces env = Inl e \<and> tr = [RefetchNonces] \<and> res = Inl e) \<or>
   (\<exists>latest e. refetchNonces env = Inr latest \<and> getChainId env = Inl e \<and>
      tr = [RefetchNonces, GetChainId] \<and> res = Inl e) \<or>
   (\<exists>latest cid e. refetchNonces env = Inr latest \<and> getChainId env = Inr cid \<and>
      signTypedDataAsync env (permit_sign_request env a latest cid) = Inl e \<and>
      tr = [RefetchNonces, GetChainId, SignTypedData (permit_sign_request env a latest cid)] \<and>
      res = Inl e) \<or>
   (\<exists>latest cid sg e. refetchNonces env = Inr latest \<and> getChainId env = Inr cid \<and>
      signTypedDataAsync env (permit_sign_request env a latest cid) = Inr sg \<and>
      (verifyTypedData env (permit_verify_request env a latest cid sg) = Inl e \<or>
       verifyTypedData env (permit_verify_request env a latest cid sg) = Inr False \<and>
       e = verification_failed) \<and>
      tr = [RefetchNonces, GetChainId, SignTypedData (permit_sign_request env a latest cid),
            VerifyTypedData (permit_verify_request env a latest cid sg)] \<and>
      res = Inl e) \<or>
   (\<exists>latest cid sg. refetchNonces env = Inr latest \<and> getChainId env = Inr cid \<and>
      signTypedDataAsync env (permit_sign_request env a latest cid) = Inr sg \<and>
      verifyTypedData env (permit_verify_request env a latest cid sg) = Inr True \<and>
      tr = [RefetchNonces, GetChainId, SignTypedData (permit_sign_request env a latest cid),
            VerifyTypedData (permit_verify_request env a latest cid sg)] \<and>
      res = Inr (sg, permit_deadline env))"
  by (auto simp: signPermit_def Let_def split: sum.splits if_splits)

lemma try_cases:
  "handleDepositWithPermit_try env a = (tr, res) \<Longrightarrow>
   (\<exists>e. signPermit env a = (tr, Inl e) \<and> res = Inl e) \<or>
   (\<exists>steps sg dl. signPermit env a = (steps, Inr (sg, dl)) \<and>
      ((\<exists>e. simulateContract env (deposit_call env a dl sg) = Inl e \<and>
            tr = steps @ [SimulateContract (deposit_call env a dl sg)] \<and> res = Inl e) \<or>
       (\<exists>request e. simulateContract env (deposit_call env a dl sg) = Inr request \<and>
            writeContractAsync env request = Inl e \<and>
            tr = steps @ [SimulateContract (deposit_call env a dl sg), WriteContract request] \<and>
            res = Inl e) \<or>
       (\<exists>request txHash. simulateContract env (deposit_call env a dl sg) = Inr request \<and>
            writeContractAsync env request = Inr txHash \<and>
            tr = steps @ [SimulateContract (deposit_call env a dl sg), WriteContract request,
                          SetHash txHash] \<and>
            res = Inr ())))"
  by (auto simp: handleDepositWithPermit_try_def Let_def split: sum.splits prod.splits)

lemma handler_cases:
  "handleDepositWithPermit env canDep amount = (tr, res) \<Longrightarrow>
   res = Inr () \<and>
   (tr = [] \<and> (\<not> canDep \<or> amount = None \<or> amount = Some 0) \<or>
    (\<exists>a. canDep \<and> amount = Some a \<and> a \<noteq> 0 \<and>
       (handleDepositWithPermit_try env a = (tr, Inr ()) \<or>
        (\<exists>steps e. handleDepositWithPermit_try env a = (steps, Inl e) \<and>
           tr = steps @ [ConsoleError e, Alert (deposit_catch_msg e)]))))"
  by (auto simp: handleDepositWithPermit_def truthy_bigint_opt_def
      split: sum.splits prod.splits option.splits if_splits)

subsection \<open>The order of the steps\<close>


subsection \<open>The example runs\<close>

lemmas run_defs = handleDepositWithPermit_def handleDepositWithPermit_try_def signPermit_def
  Let_def truthy_bigint_opt_def

lemma example_run:
  "handleDepositWithPermit example_env True (Some 5) =
     ([RefetchNonces, GetChainId,
       SignTypedData (permit_sign_request example_env 5 (Some 3) 11155111),
       VerifyTypedData (permit_verify_request example_env 5 (Some 3) 11155111 example_signature),
       SimulateContract (deposit_call example_env 5 (permit_deadline example_env) example_signature),
       WriteContract (deposit_call example_env 5 (permit_deadline example_env) example_signature),
       SetHash ''0x1234''], Inr ())"
  by (simp add: run_defs example_env_def permit_verify_request_def)

lemma example_run_bad:
  "handleDepositWithPermit example_env_bad_signature True (Some 5) =
     ([RefetchNonces, GetChainId,
       SignTypedData (permit_sign_request example_env_bad_signature 5 (Some 3) 11155111),
       VerifyTypedData (permit_verify_request example_env_bad_signature 5 (Some 3) 11155111 example_signature),
       ConsoleError verification_failed,
       Alert ''Local signature verification failed: signer != owner (ERC2612InvalidSigner)''], Inr ())"
  by (simp add: run_defs example_env_def example_env_bad_signature_def deposit_catch_msg_def verification_failed_def)

lemma example_run_rejected:
  "handleDepositWithPermit example_env_rejected True (Some 5) =
     ([RefetchNonces, GetChainId,
       SignTypedData (permit_sign_request example_env_rejected 5 (Some 3) 11155111),
       ConsoleError user_rejected,
       Alert ''User rejected the request.''], Inr ())"
  by (simp add: run_defs example_env_def example_env_rejected_def deposit_catch_msg_def user_rejected_def)



subsection \<open>The typed data that is signed\<close>

lemma sign_event_in_run:
  assumes "SignTypedData req \<in> set (fst (handleDepositWithPermit env canDep amount))"
  shows "\<exists>a latest cid. amount = Some a \<and> refetchNonces env = Inr latest \<and>
           getChainId env = Inr cid \<and> req = permit_sign_request env a latest cid"
proof -
  obtain tr res where eq: "handleDepositWithPermit env canDep amount = (tr, res)"
    by (cases "handleDepositWithPermit env canDep amount")
  with assms have mem: "SignTypedData req \<in> set tr" by simp
  from handler_cases [OF eq] mem obtain a steps r where
    a: "amount = Some a" and t: "handleDepositWithPermit_try env a = (steps, r)"
    and m: "SignTypedData req \<in> set steps"
    by auto
  from try_cases [OF t] m obtain s2 r2 where
    sp: "signPermit env a = (s2, r2)" and m2: "SignTypedData req \<in> set s2"
    by auto
  from signPermit_cases [OF sp] m2 a show ?thesis by auto
qed

text \<open>
  C2: every request to sign that a run of the handler sends to the wallet has the domain
  with the token's name (\<^verbatim>\<open>PermitToken\<close> when the name is missing or empty), version
  \<^verbatim>\<open>1\<close>, the chain id that the client reports and the permit token as verifying contract;
  the primary type \<^verbatim>\<open>Permit\<close> with the five fields owner, spender, value, nonce and
  deadline of types address, address, uint256, uint256 and uint256; and the message with
  the connected account as owner, the bank contract as spender, the amount, the nonce and
  the deadline.
\<close>

theorem permit_typed_data:
  assumes "SignTypedData req \<in> set (fst (handleDepositWithPermit env canDep amount))"
  shows "\<exists>a latest cid. amount = Some a \<and> refetchNonces env = Inr latest \<and>
     getChainId env = Inr cid \<and>
     domain req =
       \<lparr>name = (case tokenName env of
                  None \<Rightarrow> ''PermitToken''
                | Some t \<Rightarrow> if t = [] then ''PermitToken'' else t),
        version = ''1'',
        chainId = cid,
        verifyingContract = PERMIT_TOKEN_ADDRESS\<rparr> \<and>
     primaryType req = ''Permit'' \<and>
     types req =
       [(''Permit'',
         [(''owner'', ''address''), (''spender'', ''address''), (''value'', ''uint256''),
          (''nonce'', ''uint256''), (''deadline'', ''uint256'')])] \<and>
     message req =
       \<lparr>owner = connectedAddress env,
        spender = BANK_CONTRACT_ADDRESS,
        permit_value = a,
        nonce = (case latest of
                   Some n \<Rightarrow> n
                 | None \<Rightarrow> (case nonces env of Some n \<Rightarrow> n | None \<Rightarrow> 0)),
        deadline = dateNow env div 1000 + 1200\<rparr> \<and>
     account req = connectedAddress env"
proof -
  from sign_event_in_run [OF assms] obtain a latest cid where
    r: "amount = Some a" "refetchNonces env = Inr latest" "getChainId env = Inr cid"
       "req = permit_sign_request env a latest cid"
    by blast
  have "domain req =
       \<lparr>name = (case tokenName env of
                  None \<Rightarrow> ''PermitToken''
                | Some t \<Rightarrow> if t = [] then ''PermitToken'' else t),
        version = ''1'', chainId = cid, verifyingContract = PERMIT_TOKEN_ADDRESS\<rparr>"
    using r(4)
    by (simp add: permit_sign_request_def permit_domain_def truthy_string_opt_def
        truthy_string_def split: option.splits)
  moreover have "message req =
       \<lparr>owner = connectedAddress env, spender = BANK_CONTRACT_ADDRESS, permit_value = a,
        nonce = (case latest of
                   Some n \<Rightarrow> n
                 | None \<Rightarrow> (case nonces env of Some n \<Rightarrow> n | None \<Rightarrow> 0)),
        deadline = dateNow env div 1000 + 1200\<rparr>"
    using r(4)
    by (simp add: permit_sign_request_def permit_message_def permit_nonce_def
        permit_deadline_def)
  moreover have "primaryType req = ''Permit''" "account req = connectedAddress env"
    "types req =
       [(''Permit'',
         [(''owner'', ''address''), (''spender'', ''address''), (''value'', ''uint256''),
          (''nonce'', ''uint256''), (''deadline'', ''uint256'')])]"
    using r(4) by (simp_all add: permit_sign_request_def permit_types_def)
  ultimately show ?thesis using r(1-3) by blast
qed

text \<open>The request of the example run.\<close>

theorem permit_typed_data_witness:
  "SignTypedData (permit_sign_request example_env 5 (Some 3) 11155111)
     \<in> set (fst (handleDepositWithPermit example_env True (Some 5))) \<and>
   domain (permit_sign_request example_env 5 (Some 3) 11155111) =
     \<lparr>name = ''PermitToken'', version = ''1'', chainId = 11155111,
      verifyingContract = ''0x042eB0c69FC25678B0d399984c17959875f7018c''\<rparr> \<and>
   message (permit_sign_request example_env 5 (Some 3) 11155111) =
     \<lparr>owner = Some ''0x70997970c51812dc3a010c7d01b50e0d17dc79c8'',
      spender = ''0xA09A259Bd1516E1848337A592f19Ba08870f8FD2'',
      permit_value = 5, nonce = 3, deadline = 1700001200\<rparr>"
proof -
  have m: "SignTypedData (permit_sign_request example_env 5 (Some 3) 11155111)
     \<in> set (fst (handleDepositWithPermit example_env True (Some 5)))"
    by (simp add: example_run)
  have e: "refetchNonces example_env = Inr (Some 3)" "getChainId example_env = Inr 11155111"
    "tokenName example_env = Some ''PermitToken''" "dateNow example_env = 1700000000999"
    "connectedAddress example_env = Some ''0x70997970c51812dc3a010c7d01b50e0d17dc79c8''"
    by (simp_all add: example_env_def example_account_def)
  from permit_typed_data [OF m] e show ?thesis
    using m by (auto simp: PERMIT_TOKEN_ADDRESS_def BANK_CONTRACT_ADDRESS_def)
qed

subsection \<open>The local check of the signature\<close>

lemma run_prefix:
  assumes "handleDepositWithPermit env canDep amount = (tr, res)"
      and "VerifyTypedData vreq \<in> set tr"
  shows "\<exists>a latest cid sg rest.
      amount = Some a \<and> refetchNonces env = Inr latest \<and> getChainId env = Inr cid \<and>
      signTypedDataAsync env (permit_sign_request env a latest cid) = Inr sg \<and>
      vreq = permit_verify_request env a latest cid sg \<and>
      tr = [RefetchNonces, GetChainId, SignTypedData (permit_sign_request env a latest cid),
            VerifyTypedData vreq] @ rest \<and>
      (verifyTypedData env vreq = Inr True \<and>
       (\<forall>c. SimulateContract c \<in> set rest \<longrightarrow>
            c = deposit_call env a (permit_deadline env) sg) \<and>
       (\<forall>c. WriteContract c \<in> set rest \<longrightarrow>
            simulateContract env (deposit_call env a (permit_deadline env) sg) = Inr c) \<or>
       (\<exists>e. rest = [ConsoleError e, Alert (deposit_catch_msg e)] \<and>
          (verifyTypedData env vreq = Inl e \<or>
           verifyTypedData env vreq = Inr False \<and> e = verification_failed)))"
proof -
  from handler_cases [OF assms(1)] assms(2) obtain a where
    a: "amount = Some a" and
    t: "handleDepositWithPermit_try env a = (tr, Inr ()) \<or>
        (\<exists>steps e. handleDepositWithPermit_try env a = (steps, Inl e) \<and>
           tr = steps @ [ConsoleError e, Alert (deposit_catch_msg e)])"
    by auto
  from t show ?thesis
  proof
    assume ok: "handleDepositWithPermit_try env a = (tr, Inr ())"
    from try_cases [OF ok] obtain steps sg dl request txHash where
      sp: "signPermit env a = (steps, Inr (sg, dl))" and
      sim: "simulateContract env (deposit_call env a dl sg) = Inr request" and
      tr: "tr = steps @ [SimulateContract (deposit_call env a dl sg), WriteContract request,
                        SetHash txHash]"
      by auto
    from signPermit_cases [OF sp] tr sim assms(2) a show ?thesis by auto
  next
    assume "\<exists>steps e. handleDepositWithPermit_try env a = (steps, Inl e) \<and>
           tr = steps @ [ConsoleError e, Alert (deposit_catch_msg e)]"
    then obtain steps e where
      f: "handleDepositWithPermit_try env a = (steps, Inl e)" and
      tr: "tr = steps @ [ConsoleError e, Alert (deposit_catch_msg e)]"
      by blast
    from try_cases [OF f] consider
      (fsign) "signPermit env a = (steps, Inl e)"
    | (fsim) s2 sg dl where "signPermit env a = (s2, Inr (sg, dl))"
        "steps = s2 @ [SimulateContract (deposit_call env a dl sg)]"
    | (fwrite) s2 sg dl request where "signPermit env a = (s2, Inr (sg, dl))"
        "simulateContract env (deposit_call env a dl sg) = Inr request"
        "steps = s2 @ [SimulateContract (deposit_call env a dl sg), WriteContract request]"
      by auto
    then show ?thesis
    proof cases
      case fsign
      from signPermit_cases [OF fsign] tr assms(2) a show ?thesis by auto
    next
      case fsim
      from signPermit_cases [OF fsim(1)] fsim(2) tr assms(2) a show ?thesis by auto
    next
      case fwrite
      from signPermit_cases [OF fwrite(1)] fwrite(2,3) tr assms(2) a show ?thesis by auto
    qed
  qed
qed

text \<open>
  C3: the signature is verified locally, against the connected account as the expected
  signer, before anything is simulated or broadcast. When the verification does not
  return true (it returns false, or throws), the run ends there with the error logged and
  alerted (for false, the message of the local check), and no call is simulated or
  broadcast. Conversely, in a run that simulates or broadcasts, the one verification of the
  run returned true for the signature that the wallet returned for the same typed data,
  with the amount and the deadline of the call in its message; the only call simulated is
  \<^verbatim>\<open>depositWithPermit\<close> with the amount, that deadline and the \<open>v\<close>, \<open>r\<close>, \<open>s\<close> that
  \<^verbatim>\<open>splitSig\<close> takes from this verified signature; and the only request broadcast is the one
  that the simulation of this call returned. So no other signature is ever submitted.
\<close>

theorem local_verification_gate:
  fixes env :: permit_env and canDep :: bool and amount :: "int option"
  defines "tr \<equiv> fst (handleDepositWithPermit env canDep amount)"
  shows
  "(VerifyTypedData vreq \<in> set tr \<and> verifyTypedData env vreq \<noteq> Inr True \<longrightarrow>
      (\<exists>sreq e. tr = [RefetchNonces, GetChainId, SignTypedData sreq, VerifyTypedData vreq,
                       ConsoleError e, Alert (deposit_catch_msg e)] \<and>
         (verifyTypedData env vreq = Inl e \<or>
          verifyTypedData env vreq = Inr False \<and>
          deposit_catch_msg e =
            ''Local signature verification failed: signer != owner (ERC2612InvalidSigner)'')) \<and>
      (\<forall>c. SimulateContract c \<notin> set tr \<and> WriteContract c \<notin> set tr)) \<and>
   (SimulateContract c \<in> set tr \<or> WriteContract c \<in> set tr \<longrightarrow>
      (\<exists>a sreq vq rest.
         amount = Some a \<and>
         tr = [RefetchNonces, GetChainId, SignTypedData sreq, VerifyTypedData vq] @ rest \<and>
         signTypedDataAsync env sreq = Inr (signature vq) \<and>
         address vq = connectedAddress env \<and>
         owner (message vq) = connectedAddress env \<and>
         permit_value (message vq) = a \<and>
         deadline (message vq) = permit_deadline env \<and>
         domain vq = domain sreq \<and> types vq = types sreq \<and>
         primaryType vq = primaryType sreq \<and> message vq = message sreq \<and>
         verifyTypedData env vq = Inr True \<and>
         (\<forall>q. VerifyTypedData q \<in> set tr \<longrightarrow> q = vq) \<and>
         (\<forall>c'. SimulateContract c' \<in> set tr \<longrightarrow>
            c' = deposit_call env a (permit_deadline env) (signature vq)) \<and>
         (\<forall>c'. WriteContract c' \<in> set tr \<longrightarrow>
            simulateContract env (deposit_call env a (permit_deadline env) (signature vq))
              = Inr c') \<and>
         deposit_call env a (permit_deadline env) (signature vq) =
           \<lparr>call_address = BANK_CONTRACT_ADDRESS, abi = bankAbi,
            functionName = ''depositWithPermit'',
            args = [ArgBigInt a, ArgBigInt (permit_deadline env),
                    ArgNumber (fst (splitSig (signature vq))),
                    ArgString (fst (snd (splitSig (signature vq)))),
                    ArgString (snd (snd (splitSig (signature vq))))],
            call_account = connectedAddress env\<rparr>))"
proof (intro conjI impI)
  obtain res where eq: "handleDepositWithPermit env canDep amount = (tr, res)"
    unfolding tr_def by (cases "handleDepositWithPermit env canDep amount") simp
  {
    assume h: "VerifyTypedData vreq \<in> set tr \<and> verifyTypedData env vreq \<noteq> Inr True"
    from run_prefix [OF eq] h obtain a latest cid sg e where
      t: "tr = [RefetchNonces, GetChainId, SignTypedData (permit_sign_request env a latest cid),
            VerifyTypedData vreq] @ [ConsoleError e, Alert (deposit_catch_msg e)]"
      and v: "verifyTypedData env vreq = Inl e \<or>
           verifyTypedData env vreq = Inr False \<and> e = verification_failed"
      by blast
    have "deposit_catch_msg verification_failed =
       ''Local signature verification failed: signer != owner (ERC2612InvalidSigner)''"
      by (simp add: deposit_catch_msg_def verification_failed_def)
    with t v show "\<exists>sreq e. tr = [RefetchNonces, GetChainId, SignTypedData sreq,
                       VerifyTypedData vreq, ConsoleError e, Alert (deposit_catch_msg e)] \<and>
         (verifyTypedData env vreq = Inl e \<or>
          verifyTypedData env vreq = Inr False \<and>
          deposit_catch_msg e =
            ''Local signature verification failed: signer != owner (ERC2612InvalidSigner)'')"
      by auto
    from t show "\<forall>c. SimulateContract c \<notin> set tr \<and> WriteContract c \<notin> set tr"
      by simp
  }
  {
    assume h: "SimulateContract c \<in> set tr \<or> WriteContract c \<in> set tr"
    have "\<exists>vq. VerifyTypedData vq \<in> set tr"
      using handler_cases [OF eq] h
      by (auto dest!: try_cases signPermit_cases)
    then obtain vq where vq: "VerifyTypedData vq \<in> set tr" by blast
    from run_prefix [OF eq vq] obtain a latest cid sg rest where
      r: "amount = Some a"
         "signTypedDataAsync env (permit_sign_request env a latest cid) = Inr sg"
         "vq = permit_verify_request env a latest cid sg"
         "tr = [RefetchNonces, GetChainId, SignTypedData (permit_sign_request env a latest cid),
            VerifyTypedData vq] @ rest"
      and v: "verifyTypedData env vq = Inr True \<and>
       (\<forall>c. SimulateContract c \<in> set rest \<longrightarrow>
            c = deposit_call env a (permit_deadline env) sg) \<and>
       (\<forall>c. WriteContract c \<in> set rest \<longrightarrow>
            simulateContract env (deposit_call env a (permit_deadline env) sg) = Inr c) \<or>
         (\<exists>e. rest = [ConsoleError e, Alert (deposit_catch_msg e)])"
      by blast
    from v r(4) h have ok: "verifyTypedData env vq = Inr True"
      and sim: "\<forall>c. SimulateContract c \<in> set rest \<longrightarrow>
            c = deposit_call env a (permit_deadline env) sg"
      and wr: "\<forall>c. WriteContract c \<in> set rest \<longrightarrow>
            simulateContract env (deposit_call env a (permit_deadline env) sg) = Inr c"
      by auto
    have one: "\<forall>q. VerifyTypedData q \<in> set tr \<longrightarrow> q = vq"
    proof (intro allI impI)
      fix q assume q: "VerifyTypedData q \<in> set tr"
      from run_prefix [OF eq q] obtain x y z rest' where
        "tr = [RefetchNonces, GetChainId, SignTypedData (permit_sign_request env x y z),
            VerifyTypedData q] @ rest'"
        by blast
      with r(4) show "q = vq" by simp
    qed
    have f: "signature vq = sg" "address vq = connectedAddress env"
      "owner (message vq) = connectedAddress env"
      "permit_value (message vq) = a" "deadline (message vq) = permit_deadline env"
      "domain vq = domain (permit_sign_request env a latest cid)"
      "types vq = types (permit_sign_request env a latest cid)"
      "primaryType vq = primaryType (permit_sign_request env a latest cid)"
      "message vq = message (permit_sign_request env a latest cid)"
      using r(3)
      by (simp_all add: permit_verify_request_def permit_sign_request_def permit_message_def)
    have dc: "deposit_call env a (permit_deadline env) sg =
           \<lparr>call_address = BANK_CONTRACT_ADDRESS, abi = bankAbi,
            functionName = ''depositWithPermit'',
            args = [ArgBigInt a, ArgBigInt (permit_deadline env),
                    ArgNumber (fst (splitSig sg)),
                    ArgString (fst (snd (splitSig sg))),
                    ArgString (snd (snd (splitSig sg)))],
            call_account = connectedAddress env\<rparr>"
      by (simp add: deposit_call_def split: prod.splits)
    have sim': "\<forall>c'. SimulateContract c' \<in> set tr \<longrightarrow>
            c' = deposit_call env a (permit_deadline env) sg"
      and wr': "\<forall>c'. WriteContract c' \<in> set tr \<longrightarrow>
            simulateContract env (deposit_call env a (permit_deadline env) sg) = Inr c'"
      using sim wr r(4) by auto
    show "\<exists>a sreq vq rest.
         amount = Some a \<and>
         tr = [RefetchNonces, GetChainId, SignTypedData sreq, VerifyTypedData vq] @ rest \<and>
         signTypedDataAsync env sreq = Inr (signature vq) \<and>
         address vq = connectedAddress env \<and>
         owner (message vq) = connectedAddress env \<and>
         permit_value (message vq) = a \<and>
         deadline (message vq) = permit_deadline env \<and>
         domain vq = domain sreq \<and> types vq = types sreq \<and>
         primaryType vq = primaryType sreq \<and> message vq = message sreq \<and>
         verifyTypedData env vq = Inr True \<and>
         (\<forall>q. VerifyTypedData q \<in> set tr \<longrightarrow> q = vq) \<and>
         (\<forall>c'. SimulateContract c' \<in> set tr \<longrightarrow>
            c' = deposit_call env a (permit_deadline env) (signature vq)) \<and>
         (\<forall>c'. WriteContract c' \<in> set tr \<longrightarrow>
            simulateContract env (deposit_call env a (permit_deadline env) (signature vq))
              = Inr c') \<and>
         deposit_call env a (permit_deadline env) (signature vq) =
           \<lparr>call_address = BANK_CONTRACT_ADDRESS, abi = bankAbi,
            functionName = ''depositWithPermit'',
            args = [ArgBigInt a, ArgBigInt (permit_deadline env),
                    ArgNumber (fst (splitSig (signature vq))),
                    ArgString (fst (snd (splitSig (signature vq)))),
                    ArgString (snd (snd (splitSig (signature vq))))],
            call_account = connectedAddress env\<rparr>"
      apply (rule exI [of _ a], rule exI [of _ "permit_sign_request env a latest cid"],
          rule exI [of _ vq], rule exI [of _ rest])
      unfolding f(1)
      by (intro conjI r(1) r(2) r(4) ok f(2-) one sim' wr' dc)
  }
qed

text \<open>
  A signature that does not verify is never simulated or broadcast; the call of the good
  run is built from the signature that was verified for the connected account.
\<close>

theorem local_verification_gate_witness:
  "VerifyTypedData (permit_verify_request example_env_bad_signature 5 (Some 3) 11155111 example_signature)
     \<in> set (fst (handleDepositWithPermit example_env_bad_signature True (Some 5))) \<and>
   verifyTypedData example_env_bad_signature
     (permit_verify_request example_env_bad_signature 5 (Some 3) 11155111 example_signature) = Inr False \<and>
   (\<forall>c. SimulateContract c \<notin> set (fst (handleDepositWithPermit example_env_bad_signature True (Some 5))) \<and>
        WriteContract c \<notin> set (fst (handleDepositWithPermit example_env_bad_signature True (Some 5)))) \<and>
   WriteContract (deposit_call example_env 5 (permit_deadline example_env) example_signature)
     \<in> set (fst (handleDepositWithPermit example_env True (Some 5))) \<and>
   (\<exists>a vq. VerifyTypedData vq \<in> set (fst (handleDepositWithPermit example_env True (Some 5))) \<and>
      address vq = Some example_account \<and>
      verifyTypedData example_env vq = Inr True \<and>
      deposit_call example_env 5 (permit_deadline example_env) example_signature =
        deposit_call example_env a (permit_deadline example_env) (signature vq) \<and>
      simulateContract example_env
        (deposit_call example_env a (permit_deadline example_env) (signature vq)) =
        Inr (deposit_call example_env 5 (permit_deadline example_env) example_signature))"
proof -
  let ?bad = "permit_verify_request example_env_bad_signature 5 (Some 3) 11155111 example_signature"
  let ?call = "deposit_call example_env 5 (permit_deadline example_env) example_signature"
  let ?run = "fst (handleDepositWithPermit example_env True (Some 5))"
  have m: "VerifyTypedData ?bad
     \<in> set (fst (handleDepositWithPermit example_env_bad_signature True (Some 5)))"
    by (simp add: example_run_bad)
  have f: "verifyTypedData example_env_bad_signature ?bad = Inr False"
    by (simp add: example_env_bad_signature_def)
  then have n: "verifyTypedData example_env_bad_signature ?bad \<noteq> Inr True"
    by simp
  have w: "WriteContract ?call \<in> set ?run" and s: "SimulateContract ?call \<in> set ?run"
    by (simp_all add: example_run)
  have a: "connectedAddress example_env = Some example_account"
    by (simp add: example_env_def)
  from local_verification_gate [where vreq = ?bad and env = example_env_bad_signature
      and canDep = True and amount = "Some 5"] m n
  have 1: "\<forall>c. SimulateContract c \<notin> set (fst (handleDepositWithPermit example_env_bad_signature True (Some 5))) \<and>
        WriteContract c \<notin> set (fst (handleDepositWithPermit example_env_bad_signature True (Some 5)))"
    by blast
  from local_verification_gate [where env = example_env and canDep = True
      and amount = "Some 5" and c = ?call] w
  obtain a' sreq vq rest where
    t: "?run = [RefetchNonces, GetChainId, SignTypedData sreq, VerifyTypedData vq] @ rest"
    and v: "address vq = connectedAddress example_env" "verifyTypedData example_env vq = Inr True"
    and sim: "\<forall>c'. SimulateContract c' \<in> set ?run \<longrightarrow>
            c' = deposit_call example_env a' (permit_deadline example_env) (signature vq)"
    and wr: "\<forall>c'. WriteContract c' \<in> set ?run \<longrightarrow>
            simulateContract example_env
              (deposit_call example_env a' (permit_deadline example_env) (signature vq)) = Inr c'"
    by blast
  from t have "VerifyTypedData vq \<in> set ?run"
    by simp
  moreover from sim s have
    "?call = deposit_call example_env a' (permit_deadline example_env) (signature vq)"
    by blast
  moreover from wr w have "simulateContract example_env
      (deposit_call example_env a' (permit_deadline example_env) (signature vq)) = Inr ?call"
    by blast
  ultimately have 2: "\<exists>a vq. VerifyTypedData vq \<in> set ?run \<and>
      address vq = Some example_account \<and>
      verifyTypedData example_env vq = Inr True \<and>
      ?call = deposit_call example_env a (permit_deadline example_env) (signature vq) \<and>
      simulateContract example_env
        (deposit_call example_env a (permit_deadline example_env) (signature vq)) = Inr ?call"
    using v a by auto
  from m f 1 w 2 show ?thesis by blast
qed

subsection \<open>Failures of a submit action\<close>





subsection \<open>Validation of the amount\<close>

text \<open>
  C4, as the claim states it, fails on the empty string: both pages return no message for
  it (the first line of each validation returns the empty string), and the parser is not
  even called.
\<close>

theorem amount_empty_no_message:
  "amountAsBigInt example_parseUnits [] 18 = None \<and>
   amountError [] (amountAsBigInt example_parseUnits [] 18) (Some 100) = [] \<and>
   depositAmountBigInt example_parseUnits [] 18 = None \<and>
   depositAmountError [] (depositAmountBigInt example_parseUnits [] 18)
     (Some \<lparr>formatted = ''100'', symbol = ''TK'', balance_value = 100\<rparr>) = []"
  by (simp add: amountError_def depositAmountError_def truthy_string_def amountAsBigInt_def
      depositAmountBigInt_def)

text \<open>
  C4, amended: on both pages the empty amount yields no message; a non-empty amount that
  does not parse yields \<^verbatim>\<open>Invalid amount format\<close>; one that parses to zero or to a negative
  value yields \<^verbatim>\<open>Amount must be greater than 0\<close>; one that parses to a positive value above
  the loaded balance yields \<^verbatim>\<open>Insufficient balance\<close>; a positive value with no balance
  loaded, or within the balance, yields no message.
\<close>

theorem amount_validation:
  fixes P :: parse_units
  defines "err \<equiv> \<lambda>raw d bal. amountError raw (amountAsBigInt P raw d) bal"
      and "derr \<equiv> \<lambda>raw d bd. depositAmountError raw (depositAmountBigInt P raw d) bd"
  shows
  "(err [] d bal = [] \<and> derr [] d bd = []) \<and>
   (raw \<noteq> [] \<and> P raw d = None \<longrightarrow>
      err raw d bal = ''Invalid amount format'' \<and> derr raw d bd = ''Invalid amount format'') \<and>
   (raw \<noteq> [] \<and> P raw d = Some a \<and> a \<le> 0 \<longrightarrow>
      err raw d bal = ''Amount must be greater than 0'' \<and>
      derr raw d bd = ''Amount must be greater than 0'') \<and>
   (raw \<noteq> [] \<and> P raw d = Some a \<and> 0 < a \<and> bal = Some b \<and> b < a \<longrightarrow>
      err raw d bal = ''Insufficient balance'') \<and>
   (raw \<noteq> [] \<and> P raw d = Some a \<and> 0 < a \<and> bd = Some bo \<and> balance_value bo < a \<longrightarrow>
      derr raw d bd = ''Insufficient balance'') \<and>
   (raw \<noteq> [] \<and> P raw d = Some a \<and> 0 < a \<and> (bal = None \<or> bal = Some b \<and> a \<le> b) \<longrightarrow>
      err raw d bal = []) \<and>
   (raw \<noteq> [] \<and> P raw d = Some a \<and> 0 < a \<and> (bd = None \<or> bd = Some bo \<and> a \<le> balance_value bo) \<longrightarrow>
      derr raw d bd = [])"
  unfolding err_def derr_def
  by (auto simp: amountError_def depositAmountError_def truthy_string_def amountAsBigInt_def
      depositAmountBigInt_def split: option.splits)

text \<open>One amount for each message, at 0 decimals and a balance of 3.\<close>

theorem amount_validation_witness:
  "amountError ''abc'' (amountAsBigInt example_parseUnits ''abc'' 0) (Some 3)
     = ''Invalid amount format'' \<and>
   amountError ''0'' (amountAsBigInt example_parseUnits ''0'' 0) (Some 3)
     = ''Amount must be greater than 0'' \<and>
   amountError ''-1'' (amountAsBigInt example_parseUnits ''-1'' 0) (Some 3)
     = ''Amount must be greater than 0'' \<and>
   amountError ''5'' (amountAsBigInt example_parseUnits ''5'' 0) (Some 3)
     = ''Insufficient balance'' \<and>
   amountError ''2'' (amountAsBigInt example_parseUnits ''2'' 0) (Some 3) = [] \<and>
   depositAmountError ''5'' (depositAmountBigInt example_parseUnits ''5'' 0)
     (Some \<lparr>formatted = ''3'', symbol = ''TK'', balance_value = 3\<rparr>) = ''Insufficient balance'' \<and>
   depositAmountError ''2'' (depositAmountBigInt example_parseUnits ''2'' 0)
     (Some \<lparr>formatted = ''3'', symbol = ''TK'', balance_value = 3\<rparr>) = []"
proof -
  let ?bd = "Some \<lparr>formatted = ''3'', symbol = ''TK'', balance_value = 3\<rparr>"
  have p: "example_parseUnits ''abc'' 0 = None" "example_parseUnits ''0'' 0 = Some 0"
    "example_parseUnits ''-1'' 0 = Some (- 1)" "example_parseUnits ''5'' 0 = Some 5"
    "example_parseUnits ''2'' 0 = Some 2"
    by (simp_all add: example_parseUnits_def)
  have 1: "amountError ''abc'' (amountAsBigInt example_parseUnits ''abc'' 0) (Some 3)
     = ''Invalid amount format''"
    using amount_validation [where P = example_parseUnits and raw = "''abc''" and d = 0
        and bal = "Some 3"] p by simp
  have 2: "amountError ''0'' (amountAsBigInt example_parseUnits ''0'' 0) (Some 3)
     = ''Amount must be greater than 0''"
    using amount_validation [where P = example_parseUnits and raw = "''0''" and d = 0
        and bal = "Some 3" and a = 0] p by simp
  have 3: "amountError ''-1'' (amountAsBigInt example_parseUnits ''-1'' 0) (Some 3)
     = ''Amount must be greater than 0''"
    using amount_validation [where P = example_parseUnits and raw = "''-1''" and d = 0
        and bal = "Some 3" and a = "- 1"] p by simp
  have 4: "amountError ''5'' (amountAsBigInt example_parseUnits ''5'' 0) (Some 3)
     = ''Insufficient balance'' \<and>
     depositAmountError ''5'' (depositAmountBigInt example_parseUnits ''5'' 0) ?bd
     = ''Insufficient balance''"
    using amount_validation [where P = example_parseUnits and raw = "''5''" and d = 0
        and bal = "Some 3" and a = 5 and b = 3 and bd = ?bd
        and bo = "\<lparr>formatted = ''3'', symbol = ''TK'', balance_value = 3\<rparr>"] p by simp
  have 5: "amountError ''2'' (amountAsBigInt example_parseUnits ''2'' 0) (Some 3) = [] \<and>
     depositAmountError ''2'' (depositAmountBigInt example_parseUnits ''2'' 0) ?bd = []"
    using amount_validation [where P = example_parseUnits and raw = "''2''" and d = 0
        and bal = "Some 3" and a = 2 and b = 3 and bd = ?bd
        and bo = "\<lparr>formatted = ''3'', symbol = ''TK'', balance_value = 3\<rparr>"] p by simp
  from 1 2 3 4 5 show ?thesis by blast
qed

subsection \<open>The submit buttons\<close>

lemma example_account_isAddress: "isAddress ck example_account"
  by (simp add: isAddress_def addressRegex_def example_account_def hexDigit_def
      toLowerCase_def toLowerChar_def)

text \<open>
  C5: in every state of a page the submit button is enabled (\<^verbatim>\<open>canSubmit\<close>, \<^verbatim>\<open>canDeposit\<close>)
  only if a wallet is connected (on the permit page: connected, and the chain id is
  11155111), the amount parses to a positive value and has no validation message, on the
  transfer page the recipient is an address, no write is pending and no transaction is
  awaiting confirmation.
\<close>

theorem submit_guard:
  fixes P :: parse_units
  shows
  "(canSubmit addr cid (amountAsBigInt P raw d) (amountError raw (amountAsBigInt P raw d) bal)
      ck toAddress wp conf \<longrightarrow>
      (\<exists>a. addr = Some a \<and> a \<noteq> []) \<and> cid \<noteq> 0 \<and>
      (\<exists>n. P raw d = Some n \<and> 0 < n) \<and>
      amountError raw (amountAsBigInt P raw d) bal = [] \<and>
      isAddress ck toAddress \<and> \<not> wp \<and> \<not> conf) \<and>
   (canDeposit (baseGuard conn (correctNetwork cid) wp conf) (depositAmountBigInt P raw d)
      (depositAmountError raw (depositAmountBigInt P raw d) bd) \<longrightarrow>
      conn \<and> cid = 11155111 \<and>
      (\<exists>n. P raw d = Some n \<and> 0 < n) \<and>
      depositAmountError raw (depositAmountBigInt P raw d) bd = [] \<and>
      \<not> wp \<and> \<not> conf)"
  by (auto simp: canSubmit_def canDeposit_def baseGuard_def correctNetwork_def
      EXPECTED_CHAIN_ID_def truthy_number_def truthy_string_opt_def truthy_string_def
      truthy_bigint_opt_def amountAsBigInt_def depositAmountBigInt_def amountError_def
      depositAmountError_def split: option.splits if_splits)

text \<open>A state of each page in which the button is enabled.\<close>

theorem submit_guard_witness:
  "canSubmit (Some example_account) 11155111 (amountAsBigInt example_parseUnits ''2'' 0)
     (amountError ''2'' (amountAsBigInt example_parseUnits ''2'' 0) (Some 3))
     (\<lambda>t. False) example_account False False \<and>
   canDeposit (baseGuard True (correctNetwork 11155111) False False)
     (depositAmountBigInt example_parseUnits ''2'' 0)
     (depositAmountError ''2'' (depositAmountBigInt example_parseUnits ''2'' 0) None) \<and>
   (\<exists>n. example_parseUnits ''2'' 0 = Some n \<and> 0 < n) \<and>
   isAddress (\<lambda>t. False) example_account"
proof -
  have p: "example_parseUnits ''2'' 0 = Some 2"
    by (simp add: example_parseUnits_def)
  have s: "canSubmit (Some example_account) 11155111 (amountAsBigInt example_parseUnits ''2'' 0)
     (amountError ''2'' (amountAsBigInt example_parseUnits ''2'' 0) (Some 3))
     (\<lambda>t. False) example_account False False"
    using p example_account_isAddress [of "\<lambda>t. False"]
    by (simp add: canSubmit_def truthy_string_opt_def truthy_string_def truthy_number_def
        truthy_bigint_opt_def amountAsBigInt_def amountError_def example_account_def)
  have c: "canDeposit (baseGuard True (correctNetwork 11155111) False False)
     (depositAmountBigInt example_parseUnits ''2'' 0)
     (depositAmountError ''2'' (depositAmountBigInt example_parseUnits ''2'' 0) None)"
    using p
    by (simp add: canDeposit_def baseGuard_def correctNetwork_def EXPECTED_CHAIN_ID_def
        truthy_number_def truthy_string_def truthy_bigint_opt_def depositAmountBigInt_def
        depositAmountError_def)
  from submit_guard [of "Some example_account" 11155111 example_parseUnits "''2''" 0 "Some 3"
      "\<lambda>t. False" example_account False False True None] s c
  show ?thesis by blast
qed

subsection \<open>Validation of the recipient\<close>

text \<open>
  C7, as the claim states it, fails on the empty string: it is not an address, even for a
  checksum test that accepts everything, and the page shows no address error for it.
\<close>

theorem address_empty_no_message:
  "\<not> isAddress (\<lambda>t. True) [] \<and> addressError (\<lambda>t. True) [] = []"
  by (simp add: isAddress_def addressRegex_def addressError_def truthy_string_def)

text \<open>
  C7, amended: a non-empty recipient that is not an address yields \<^verbatim>\<open>Invalid address\<close>; an
  address yields no address error; the empty recipient yields no address error; and any
  recipient that is not an address, the empty one included, keeps the button disabled.
\<close>

theorem address_validation:
  "(toAddress \<noteq> [] \<and> \<not> isAddress ck toAddress \<longrightarrow>
      addressError ck toAddress = ''Invalid address'') \<and>
   (isAddress ck toAddress \<longrightarrow> addressError ck toAddress = []) \<and>
   (\<not> isAddress ck toAddress \<longrightarrow>
      \<not> canSubmit addr cid amount amountErr ck toAddress wp conf) \<and>
   addressError ck [] = []"
  by (simp add: addressError_def truthy_string_def canSubmit_def)

text \<open>A short string, the empty string and an address.\<close>

theorem address_validation_witness:
  "\<not> isAddress (\<lambda>t. True) ''0x1234'' \<and>
   addressError (\<lambda>t. True) ''0x1234'' = ''Invalid address'' \<and>
   \<not> canSubmit (Some example_account) 11155111 (Some 2) [] (\<lambda>t. True) ''0x1234'' False False \<and>
   \<not> canSubmit (Some example_account) 11155111 (Some 2) [] (\<lambda>t. True) [] False False \<and>
   isAddress (\<lambda>t. True) example_account \<and>
   addressError (\<lambda>t. True) example_account = []"
proof -
  have n: "\<not> isAddress (\<lambda>t. True) ''0x1234''" "\<not> isAddress (\<lambda>t. True) []"
    by (simp_all add: isAddress_def addressRegex_def)
  have y: "isAddress (\<lambda>t. True) example_account"
    by (rule example_account_isAddress)
  from address_validation [of "''0x1234''" "\<lambda>t. True" "Some example_account" 11155111 "Some 2" "[]"
      False False] n
  have 1: "addressError (\<lambda>t. True) ''0x1234'' = ''Invalid address''"
    "\<not> canSubmit (Some example_account) 11155111 (Some 2) [] (\<lambda>t. True) ''0x1234'' False False"
    by simp_all
  from address_validation [of "[]" "\<lambda>t. True" "Some example_account" 11155111 "Some 2" "[]"
      False False] n
  have 2: "\<not> canSubmit (Some example_account) 11155111 (Some 2) [] (\<lambda>t. True) [] False False"
    by simp
  from address_validation [of example_account "\<lambda>t. True"] y
  have 3: "addressError (\<lambda>t. True) example_account = []"
    by simp
  from n y 1 2 3 show ?thesis by blast
qed

subsection \<open>The decimal count in use\<close>

text \<open>
  C10, as the claim states it, fails for the wallet balance of the permit page: that line
  prints the string that the balance read has formatted, so with the decimals read still
  undefined (a count of 18) one raw balance of 1500000 is shown as 1.5 or as
  0.0000000000015, whatever the balance read delivers.
\<close>

theorem decimals_not_used_by_token_balance:
  "decimals Undefined = 18 \<and>
   formattedTokenBalance
     (Some \<lparr>formatted = ''1.5'', symbol = ''TK'', balance_value = 1500000\<rparr>) = ''1.5 TK'' \<and>
   formattedTokenBalance
     (Some \<lparr>formatted = ''0.0000000000015'', symbol = ''TK'', balance_value = 1500000\<rparr>)
     = ''0.0000000000015 TK''"
  by (simp add: decimals_def formattedTokenBalance_def)

text \<open>
  C10, amended: while the decimals read is undefined or null the count is 18, and a number
  that the read returns is the count. With that count both pages parse the entered amount,
  the transfer page formats its balance and the permit page formats the bank deposit. The
  wallet balance of the permit page is the formatted string and the symbol of the balance
  read, and does not depend on the count.
\<close>

theorem decimals_fallback:
  fixes P :: parse_units and F :: format_units
  shows
  "decimals Undefined = 18 \<and> decimals Null = 18 \<and> decimals (NumberVal n) = n \<and>
   (data = Undefined \<or> data = Null \<longrightarrow>
      (raw \<noteq> [] \<longrightarrow> amountAsBigInt P raw (decimals data) = P raw 18 \<and>
                     depositAmountBigInt P raw (decimals data) = P raw 18) \<and>
      formattedBalance F S (Some b) (decimals data) =
        (case F b 18 of Some t \<Rightarrow> t | None \<Rightarrow> S b) \<and>
      formattedBankDeposit F S (Some b) (decimals data) tsym =
        (case F b 18 of
           Some t \<Rightarrow> trim (t @ '' '' @ (case tsym of Some y \<Rightarrow> y | None \<Rightarrow> []))
         | None \<Rightarrow> S b)) \<and>
   (raw \<noteq> [] \<longrightarrow> amountAsBigInt P raw (decimals (NumberVal n)) = P raw n \<and>
                  depositAmountBigInt P raw (decimals (NumberVal n)) = P raw n) \<and>
   formattedBalance F S (Some b) (decimals (NumberVal n)) =
     (case F b n of Some t \<Rightarrow> t | None \<Rightarrow> S b) \<and>
   formattedBankDeposit F S (Some b) (decimals (NumberVal n)) tsym =
     (case F b n of
        Some t \<Rightarrow> trim (t @ '' '' @ (case tsym of Some y \<Rightarrow> y | None \<Rightarrow> []))
      | None \<Rightarrow> S b) \<and>
   formattedTokenBalance (Some bd) = formatted bd @ '' '' @ symbol bd"
  by (auto simp: decimals_def amountAsBigInt_def depositAmountBigInt_def truthy_string_def
      formattedBalance_def formattedBankDeposit_def formattedTokenBalance_def)

text \<open>Parsing and formatting at the fallback of 18, and at a returned count of 6.\<close>

theorem decimals_fallback_witness:
  "amountAsBigInt example_parseUnits ''2'' (decimals Undefined) = Some 2000000000000000000 \<and>
   depositAmountBigInt example_parseUnits ''2'' (decimals Null) = Some 2000000000000000000 \<and>
   formattedBalance example_formatUnits (\<lambda>b. ''?'') (Some 1500000000000000000) (decimals Undefined)
     = ''1.5'' \<and>
   formattedBankDeposit example_formatUnits (\<lambda>b. ''?'') (Some 1500000000000000000)
     (decimals Undefined) (Some ''TK'') = ''1.5 TK'' \<and>
   formattedBalance example_formatUnits (\<lambda>b. ''?'') (Some 1500000) (decimals (NumberVal 6))
     = ''1.5''"
proof -
  have p: "example_parseUnits ''2'' 18 = Some 2000000000000000000"
    by (simp add: example_parseUnits_def)
  have f: "example_formatUnits 1500000000000000000 18 = Some ''1.5''"
    "example_formatUnits 1500000 6 = Some ''1.5''"
    by (simp_all add: example_formatUnits_def)
  have t: "trim ''1.5 TK'' = ''1.5 TK''"
    by (simp add: trim_def isWhiteSpace_def)
  note u = decimals_fallback [where data = Undefined and raw = "''2''" and P = example_parseUnits
      and F = example_formatUnits and S = "\<lambda>b. ''?''" and b = 1500000000000000000
      and tsym = "Some ''TK''" and n = 6
      and bd = "\<lparr>formatted = [], symbol = [], balance_value = 0\<rparr>"]
  note v = decimals_fallback [where data = Null and raw = "''2''" and P = example_parseUnits
      and F = example_formatUnits and S = "\<lambda>b. ''?''" and b = 1500000 and tsym = None
      and n = 6 and bd = "\<lparr>formatted = [], symbol = [], balance_value = 0\<rparr>"]
  note w = decimals_fallback [where data = Undefined and raw = "''2''" and P = example_parseUnits
      and F = example_formatUnits and S = "\<lambda>b. ''?''" and b = 1500000 and tsym = None
      and n = 6 and bd = "\<lparr>formatted = [], symbol = [], balance_value = 0\<rparr>"]
  from u p f t have 1:
    "amountAsBigInt example_parseUnits ''2'' (decimals Undefined) = Some 2000000000000000000"
    "formattedBalance example_formatUnits (\<lambda>b. ''?'') (Some 1500000000000000000)
       (decimals Undefined) = ''1.5''"
    "formattedBankDeposit example_formatUnits (\<lambda>b. ''?'') (Some 1500000000000000000)
       (decimals Undefined) (Some ''TK'') = ''1.5 TK''"
    by auto
  from v p have 2:
    "depositAmountBigInt example_parseUnits ''2'' (decimals Null) = Some 2000000000000000000"
    by auto
  from w f have 3:
    "formattedBalance example_formatUnits (\<lambda>b. ''?'') (Some 1500000) (decimals (NumberVal 6))
     = ''1.5''"
    by auto
  from 1 2 3 show ?thesis by blast
qed

end
